theory Spec2Isabelle
  imports Main "HOL-Library.Word"
begin

unbundle bit_operations_syntax

section \<open>ThingSet addressing in the 29-bit CAN identifier (include/thingset/can.h)\<close>

text \<open>
  The header works on \<open>uint32_t\<close> values: every setter and getter casts its argument to
  \<open>uint32_t\<close> before shifting. Identifiers and field values are therefore 32-bit words;
  \<open><<\<close> is \<open>push_bit\<close> (bits shifted past bit 31 are lost), \<open>>>\<close> is \<open>drop_bit\<close>.
\<close>

type_synonym u32 = "32 word"
type_synonym u8 = "8 word"

subsection \<open>Source and target addresses\<close>

definition THINGSET_CAN_SOURCE_POS :: nat where
  "THINGSET_CAN_SOURCE_POS = 0"

definition THINGSET_CAN_SOURCE_MASK :: u32 where
  "THINGSET_CAN_SOURCE_MASK = push_bit THINGSET_CAN_SOURCE_POS 0xFF"

definition THINGSET_CAN_SOURCE_SET :: "u32 \<Rightarrow> u32" where
  "THINGSET_CAN_SOURCE_SET addr =
     (push_bit THINGSET_CAN_SOURCE_POS addr) AND THINGSET_CAN_SOURCE_MASK"

definition THINGSET_CAN_SOURCE_GET :: "u32 \<Rightarrow> u32" where
  "THINGSET_CAN_SOURCE_GET ident =
     drop_bit THINGSET_CAN_SOURCE_POS (ident AND THINGSET_CAN_SOURCE_MASK)"

definition THINGSET_CAN_TARGET_POS :: nat where
  "THINGSET_CAN_TARGET_POS = 8"

definition THINGSET_CAN_TARGET_MASK :: u32 where
  "THINGSET_CAN_TARGET_MASK = push_bit THINGSET_CAN_TARGET_POS 0xFF"

definition THINGSET_CAN_TARGET_SET :: "u32 \<Rightarrow> u32" where
  "THINGSET_CAN_TARGET_SET addr =
     (push_bit THINGSET_CAN_TARGET_POS addr) AND THINGSET_CAN_TARGET_MASK"

definition THINGSET_CAN_TARGET_GET :: "u32 \<Rightarrow> u32" where
  "THINGSET_CAN_TARGET_GET ident =
     drop_bit THINGSET_CAN_TARGET_POS (ident AND THINGSET_CAN_TARGET_MASK)"

definition THINGSET_CAN_ADDR_MAX :: u8 where
  "THINGSET_CAN_ADDR_MAX = 0xFD"

definition THINGSET_CAN_ADDR_ANONYMOUS :: u8 where
  "THINGSET_CAN_ADDR_ANONYMOUS = 0xFE"

definition THINGSET_CAN_ADDR_BROADCAST :: u8 where
  "THINGSET_CAN_ADDR_BROADCAST = 0xFF"

subsection \<open>Data IDs for publication messages\<close>

definition THINGSET_CAN_DATA_ID_POS :: nat where
  "THINGSET_CAN_DATA_ID_POS = 8"

definition THINGSET_CAN_DATA_ID_MASK :: u32 where
  "THINGSET_CAN_DATA_ID_MASK = push_bit THINGSET_CAN_DATA_ID_POS 0xFFFF"

definition THINGSET_CAN_DATA_ID_SET :: "u32 \<Rightarrow> u32" where
  "THINGSET_CAN_DATA_ID_SET d =
     (push_bit THINGSET_CAN_DATA_ID_POS d) AND THINGSET_CAN_DATA_ID_MASK"

definition THINGSET_CAN_DATA_ID_GET :: "u32 \<Rightarrow> u32" where
  "THINGSET_CAN_DATA_ID_GET ident =
     drop_bit THINGSET_CAN_DATA_ID_POS (ident AND THINGSET_CAN_DATA_ID_MASK)"

subsection \<open>Bus ID for request/response messages\<close>

definition THINGSET_CAN_BUS_ID_POS :: nat where
  "THINGSET_CAN_BUS_ID_POS = 16"

definition THINGSET_CAN_BUS_ID_MASK :: u32 where
  "THINGSET_CAN_BUS_ID_MASK = push_bit THINGSET_CAN_BUS_ID_POS 0xFF"

definition THINGSET_CAN_BUS_ID_SET :: "u32 \<Rightarrow> u32" where
  "THINGSET_CAN_BUS_ID_SET b =
     (push_bit THINGSET_CAN_BUS_ID_POS b) AND THINGSET_CAN_BUS_ID_MASK"

definition THINGSET_CAN_BUS_ID_GET :: "u32 \<Rightarrow> u32" where
  "THINGSET_CAN_BUS_ID_GET ident =
     drop_bit THINGSET_CAN_BUS_ID_POS (ident AND THINGSET_CAN_BUS_ID_MASK)"

definition THINGSET_CAN_BUS_ID_DEFAULT :: u32 where
  "THINGSET_CAN_BUS_ID_DEFAULT = 0xDA"

subsection \<open>Message types\<close>

definition THINGSET_CAN_TYPE_POS :: nat where
  "THINGSET_CAN_TYPE_POS = 24"

definition THINGSET_CAN_TYPE_MASK :: u32 where
  "THINGSET_CAN_TYPE_MASK = push_bit THINGSET_CAN_TYPE_POS 0x3"

definition THINGSET_CAN_TYPE_CHANNEL :: u32 where
  "THINGSET_CAN_TYPE_CHANNEL = push_bit THINGSET_CAN_TYPE_POS 0x0"

definition THINGSET_CAN_TYPE_REPORT :: u32 where
  "THINGSET_CAN_TYPE_REPORT = push_bit THINGSET_CAN_TYPE_POS 0x2"

definition THINGSET_CAN_TYPE_NETWORK :: u32 where
  "THINGSET_CAN_TYPE_NETWORK = push_bit THINGSET_CAN_TYPE_POS 0x3"

subsection \<open>Message priorities\<close>

definition THINGSET_CAN_PRIO_POS :: nat where
  "THINGSET_CAN_PRIO_POS = 26"

definition THINGSET_CAN_PRIO_MASK :: u32 where
  "THINGSET_CAN_PRIO_MASK = push_bit THINGSET_CAN_PRIO_POS 0x7"

text \<open>The priority setter shifts only; unlike the other setters it applies no mask.\<close>

definition THINGSET_CAN_PRIO_SET :: "u32 \<Rightarrow> u32" where
  "THINGSET_CAN_PRIO_SET prio = push_bit THINGSET_CAN_PRIO_POS prio"

definition THINGSET_CAN_PRIO_GET :: "u32 \<Rightarrow> u32" where
  "THINGSET_CAN_PRIO_GET ident =
     drop_bit THINGSET_CAN_PRIO_POS (ident AND THINGSET_CAN_PRIO_MASK)"

definition THINGSET_CAN_PRIO_CONTROL_EMERGENCY :: u32 where
  "THINGSET_CAN_PRIO_CONTROL_EMERGENCY = push_bit THINGSET_CAN_PRIO_POS 0x0"

definition THINGSET_CAN_PRIO_CONTROL_HIGH :: u32 where
  "THINGSET_CAN_PRIO_CONTROL_HIGH = push_bit THINGSET_CAN_PRIO_POS 0x2"

definition THINGSET_CAN_PRIO_CONTROL_LOW :: u32 where
  "THINGSET_CAN_PRIO_CONTROL_LOW = push_bit THINGSET_CAN_PRIO_POS 0x3"

definition THINGSET_CAN_PRIO_NETWORK_MGMT :: u32 where
  "THINGSET_CAN_PRIO_NETWORK_MGMT = push_bit THINGSET_CAN_PRIO_POS 0x4"

definition THINGSET_CAN_PRIO_REPORT_HIGH :: u32 where
  "THINGSET_CAN_PRIO_REPORT_HIGH = push_bit THINGSET_CAN_PRIO_POS 0x5"

definition THINGSET_CAN_PRIO_CHANNEL :: u32 where
  "THINGSET_CAN_PRIO_CHANNEL = push_bit THINGSET_CAN_PRIO_POS 0x6"

definition THINGSET_CAN_PRIO_REPORT_LOW :: u32 where
  "THINGSET_CAN_PRIO_REPORT_LOW = push_bit THINGSET_CAN_PRIO_POS 0x7"

subsection \<open>Classification macros\<close>

text \<open>
  Modelled from the spec: \<open>THINGSET_CAN_TYPE_CONTROL\<close> is used by the macro
  \<open>THINGSET_CAN_CONTROL\<close> but the header defines no such symbol. Control and report
  frames share the type tag 0x2 (the layout comment at the top of the header and the
  specification both say so) and are told apart by the priority alone, so the symbol is
  taken to be the report tag.
\<close>

definition THINGSET_CAN_TYPE_CONTROL :: u32 where
  "THINGSET_CAN_TYPE_CONTROL = push_bit THINGSET_CAN_TYPE_POS 0x2"

definition THINGSET_CAN_CONTROL :: "u32 \<Rightarrow> bool" where
  "THINGSET_CAN_CONTROL ident \<longleftrightarrow>
     (ident AND THINGSET_CAN_TYPE_MASK) = THINGSET_CAN_TYPE_CONTROL
       \<and> THINGSET_CAN_PRIO_GET ident < 4"

definition THINGSET_CAN_REPORT :: "u32 \<Rightarrow> bool" where
  "THINGSET_CAN_REPORT ident \<longleftrightarrow>
     (ident AND THINGSET_CAN_TYPE_MASK) = THINGSET_CAN_TYPE_REPORT
       \<and> THINGSET_CAN_PRIO_GET ident \<ge> 4"

definition THINGSET_CAN_CHANNEL :: "u32 \<Rightarrow> bool" where
  "THINGSET_CAN_CHANNEL ident \<longleftrightarrow>
     (ident AND THINGSET_CAN_TYPE_MASK) = THINGSET_CAN_TYPE_CHANNEL"

subsection \<open>Identifier layouts\<close>

text \<open>
  The header documents three layouts and leaves the composition to the caller, who ORs
  the setter macros together. \<open>channel_id\<close> and \<open>report_id\<close> are these compositions
  for the channel layout (priority, tag 0x0, bus ID, target, source) and for the
  control/report layout (priority, tag 0x2, data ID, source).
\<close>

definition channel_id :: "u32 \<Rightarrow> u32 \<Rightarrow> u32 \<Rightarrow> u32 \<Rightarrow> u32" where
  "channel_id prio bus_id target source =
     THINGSET_CAN_PRIO_SET prio OR THINGSET_CAN_TYPE_CHANNEL OR THINGSET_CAN_BUS_ID_SET bus_id
       OR THINGSET_CAN_TARGET_SET target OR THINGSET_CAN_SOURCE_SET source"

definition report_id :: "u32 \<Rightarrow> u32 \<Rightarrow> u32 \<Rightarrow> u32" where
  "report_id prio data_id source =
     THINGSET_CAN_PRIO_SET prio OR THINGSET_CAN_TYPE_REPORT OR THINGSET_CAN_DATA_ID_SET data_id
       OR THINGSET_CAN_SOURCE_SET source"

text \<open>
  The macros are plain expressions of type \<open>uint32_t\<close>: none of them has a failing path.
  As a result type with an error alternative, encoding therefore always takes the
  \<open>Inr\<close> branch.
\<close>

datatype error = InvalidField

definition encode_channel :: "u32 \<Rightarrow> u32 \<Rightarrow> u32 \<Rightarrow> u32 \<Rightarrow> error + u32" where
  "encode_channel prio bus_id target source = Inr (channel_id prio bus_id target source)"

definition encode_report :: "u32 \<Rightarrow> u32 \<Rightarrow> u32 \<Rightarrow> error + u32" where
  "encode_report prio data_id source = Inr (report_id prio data_id source)"

subsection \<open>Node context\<close>

text \<open>
  The fields of \<open>struct thingset_can\<close> that carry protocol state. The device pointer, the
  work item, the ISO-TP contexts and addresses and the event object are opaque handles
  of the operating system and are left out.
\<close>

record thingset_can =
  next_pub_time :: "64 word"
  node_addr :: u8
  pub_enable :: bool

text \<open>
  Modelled from the spec: the header only declares the context and its entry points; the
  code that claims an address is not part of it. The specification's \<open>commit(address)\<close>
  marks the address as claimed and rejects 0xFE and 0xFF.
\<close>

definition commit :: "u8 \<Rightarrow> thingset_can \<Rightarrow> thingset_can option" where
  "commit address ts =
     (if address = THINGSET_CAN_ADDR_ANONYMOUS \<or> address = THINGSET_CAN_ADDR_BROADCAST
      then None
      else Some (ts\<lparr>node_addr := address\<rparr>))"

section \<open>Basic facts\<close>

lemmas can_pos_defs =
  THINGSET_CAN_SOURCE_POS_def THINGSET_CAN_TARGET_POS_def THINGSET_CAN_DATA_ID_POS_def
  THINGSET_CAN_BUS_ID_POS_def THINGSET_CAN_TYPE_POS_def THINGSET_CAN_PRIO_POS_def

lemmas can_mask_defs =
  THINGSET_CAN_SOURCE_MASK_def THINGSET_CAN_TARGET_MASK_def THINGSET_CAN_DATA_ID_MASK_def
  THINGSET_CAN_BUS_ID_MASK_def THINGSET_CAN_TYPE_MASK_def THINGSET_CAN_PRIO_MASK_def

lemmas can_set_defs =
  THINGSET_CAN_SOURCE_SET_def THINGSET_CAN_TARGET_SET_def THINGSET_CAN_DATA_ID_SET_def
  THINGSET_CAN_BUS_ID_SET_def THINGSET_CAN_PRIO_SET_def

lemmas can_get_defs =
  THINGSET_CAN_SOURCE_GET_def THINGSET_CAN_TARGET_GET_def THINGSET_CAN_DATA_ID_GET_def
  THINGSET_CAN_BUS_ID_GET_def THINGSET_CAN_PRIO_GET_def

lemmas can_type_defs =
  THINGSET_CAN_TYPE_CHANNEL_def THINGSET_CAN_TYPE_REPORT_def THINGSET_CAN_TYPE_NETWORK_def

lemmas can_prio_defs =
  THINGSET_CAN_PRIO_CONTROL_EMERGENCY_def THINGSET_CAN_PRIO_CONTROL_HIGH_def
  THINGSET_CAN_PRIO_CONTROL_LOW_def THINGSET_CAN_PRIO_NETWORK_MGMT_def
  THINGSET_CAN_PRIO_REPORT_HIGH_def THINGSET_CAN_PRIO_CHANNEL_def
  THINGSET_CAN_PRIO_REPORT_LOW_def

lemmas can_class_defs =
  THINGSET_CAN_CONTROL_def THINGSET_CAN_REPORT_def THINGSET_CAN_CHANNEL_def

subsection \<open>Which bits each mask and tag holds\<close>

lemma lit_mask2: "(0x3::u32) = mask 2" by (simp add: mask_eq_exp_minus_1)
lemma lit_mask3: "(0x7::u32) = mask 3" by (simp add: mask_eq_exp_minus_1)
lemma lit_mask8: "(0xFF::u32) = mask 8" by (simp add: mask_eq_exp_minus_1)
lemma lit_mask16: "(0xFFFF::u32) = mask 16" by (simp add: mask_eq_exp_minus_1)
lemma lit_mask29: "(0x1FFFFFFF::u32) = mask 29" by (simp add: mask_eq_exp_minus_1)

lemma bit_SOURCE_MASK: "bit THINGSET_CAN_SOURCE_MASK n \<longleftrightarrow> n < 8"
  unfolding THINGSET_CAN_SOURCE_MASK_def THINGSET_CAN_SOURCE_POS_def lit_mask8
  by (auto simp add: bit_simps)

lemma bit_TARGET_MASK: "bit THINGSET_CAN_TARGET_MASK n \<longleftrightarrow> 8 \<le> n \<and> n < 16"
  unfolding THINGSET_CAN_TARGET_MASK_def THINGSET_CAN_TARGET_POS_def lit_mask8
  by (auto simp add: bit_simps)

lemma bit_DATA_ID_MASK: "bit THINGSET_CAN_DATA_ID_MASK n \<longleftrightarrow> 8 \<le> n \<and> n < 24"
  unfolding THINGSET_CAN_DATA_ID_MASK_def THINGSET_CAN_DATA_ID_POS_def lit_mask16
  by (auto simp add: bit_simps)

lemma bit_BUS_ID_MASK: "bit THINGSET_CAN_BUS_ID_MASK n \<longleftrightarrow> 16 \<le> n \<and> n < 24"
  unfolding THINGSET_CAN_BUS_ID_MASK_def THINGSET_CAN_BUS_ID_POS_def lit_mask8
  by (auto simp add: bit_simps)

lemma bit_TYPE_MASK: "bit THINGSET_CAN_TYPE_MASK n \<longleftrightarrow> 24 \<le> n \<and> n < 26"
  unfolding THINGSET_CAN_TYPE_MASK_def THINGSET_CAN_TYPE_POS_def lit_mask2
  by (auto simp add: bit_simps)

lemma bit_PRIO_MASK: "bit THINGSET_CAN_PRIO_MASK n \<longleftrightarrow> 26 \<le> n \<and> n < 29"
  unfolding THINGSET_CAN_PRIO_MASK_def THINGSET_CAN_PRIO_POS_def lit_mask3
  by (auto simp add: bit_simps)

lemma bit_TYPE_CHANNEL: "bit THINGSET_CAN_TYPE_CHANNEL n \<longleftrightarrow> False"
  by (simp add: THINGSET_CAN_TYPE_CHANNEL_def)

lemma bit_TYPE_REPORT: "bit THINGSET_CAN_TYPE_REPORT n \<longleftrightarrow> n = 25"
proof -
  have eq: "THINGSET_CAN_TYPE_REPORT = 2 ^ 25"
    by (simp add: THINGSET_CAN_TYPE_REPORT_def THINGSET_CAN_TYPE_POS_def)
  show ?thesis unfolding eq bit_exp_iff by auto
qed

lemma bit_TYPE_NETWORK: "bit THINGSET_CAN_TYPE_NETWORK n \<longleftrightarrow> n = 24 \<or> n = 25"
proof -
  have eq: "THINGSET_CAN_TYPE_NETWORK = push_bit 24 (mask 2)"
    by (simp add: THINGSET_CAN_TYPE_NETWORK_def THINGSET_CAN_TYPE_POS_def lit_mask2)
  show ?thesis unfolding eq by (auto simp add: bit_simps)
qed

lemmas bit_can =
  bit_SOURCE_MASK bit_TARGET_MASK bit_DATA_ID_MASK bit_BUS_ID_MASK bit_TYPE_MASK
  bit_PRIO_MASK bit_TYPE_CHANNEL bit_TYPE_REPORT bit_TYPE_NETWORK

subsection \<open>Values that fit a field\<close>

lemma u32_less_take_bit: "(v::u32) < 2 ^ k \<Longrightarrow> take_bit k v = v"
  by (simp add: take_bit_eq_mask less_mask_eq)

lemma fits3: "(v::u32) < 8 \<Longrightarrow> take_bit 3 v = v"
  using u32_less_take_bit [of v 3] by simp

lemma fits8: "(v::u32) < 0x100 \<Longrightarrow> take_bit 8 v = v"
  using u32_less_take_bit [of v 8] by simp

lemma fits16: "(v::u32) < 0x10000 \<Longrightarrow> take_bit 16 v = v"
  using u32_less_take_bit [of v 16] by simp

subsection \<open>A getter after its own setter keeps the low bits of the value\<close>

lemma source_get_set: "THINGSET_CAN_SOURCE_GET (THINGSET_CAN_SOURCE_SET v) = take_bit 8 v"
  unfolding can_set_defs can_get_defs can_pos_defs
  by (rule bit_eqI) (auto simp add: bit_simps bit_can)

lemma target_get_set: "THINGSET_CAN_TARGET_GET (THINGSET_CAN_TARGET_SET v) = take_bit 8 v"
  unfolding can_set_defs can_get_defs can_pos_defs
  by (rule bit_eqI) (auto simp add: bit_simps bit_can)

lemma bus_id_get_set: "THINGSET_CAN_BUS_ID_GET (THINGSET_CAN_BUS_ID_SET v) = take_bit 8 v"
  unfolding can_set_defs can_get_defs can_pos_defs
  by (rule bit_eqI) (auto simp add: bit_simps bit_can)

lemma data_id_get_set: "THINGSET_CAN_DATA_ID_GET (THINGSET_CAN_DATA_ID_SET v) = take_bit 16 v"
  unfolding can_set_defs can_get_defs can_pos_defs
  by (rule bit_eqI) (auto simp add: bit_simps bit_can)

lemma prio_get_set: "THINGSET_CAN_PRIO_GET (THINGSET_CAN_PRIO_SET v) = take_bit 3 v"
  unfolding can_set_defs can_get_defs can_pos_defs
  by (rule bit_eqI) (auto simp add: bit_simps bit_can)

subsection \<open>Decoding a composed identifier\<close>

lemma channel_id_prio: "THINGSET_CAN_PRIO_GET (channel_id p b t s) = take_bit 3 p"
  unfolding channel_id_def can_set_defs can_get_defs can_pos_defs
  by (rule bit_eqI) (auto simp add: bit_simps bit_can)

lemma channel_id_bus_id: "THINGSET_CAN_BUS_ID_GET (channel_id p b t s) = take_bit 8 b"
  unfolding channel_id_def can_set_defs can_get_defs can_pos_defs
  by (rule bit_eqI) (auto simp add: bit_simps bit_can)

lemma channel_id_target: "THINGSET_CAN_TARGET_GET (channel_id p b t s) = take_bit 8 t"
  unfolding channel_id_def can_set_defs can_get_defs can_pos_defs
  by (rule bit_eqI) (auto simp add: bit_simps bit_can)

lemma channel_id_source: "THINGSET_CAN_SOURCE_GET (channel_id p b t s) = take_bit 8 s"
  unfolding channel_id_def can_set_defs can_get_defs can_pos_defs
  by (rule bit_eqI) (auto simp add: bit_simps bit_can)

lemma channel_id_type:
  "channel_id (take_bit 3 p) b t s AND THINGSET_CAN_TYPE_MASK = THINGSET_CAN_TYPE_CHANNEL"
  unfolding channel_id_def can_set_defs can_get_defs can_pos_defs
  by (rule bit_eqI) (auto simp add: bit_simps bit_can)

lemma report_id_prio: "THINGSET_CAN_PRIO_GET (report_id p d s) = take_bit 3 p"
  unfolding report_id_def can_set_defs can_get_defs can_pos_defs
  by (rule bit_eqI) (auto simp add: bit_simps bit_can)

lemma report_id_data_id: "THINGSET_CAN_DATA_ID_GET (report_id p d s) = take_bit 16 d"
  unfolding report_id_def can_set_defs can_get_defs can_pos_defs
  by (rule bit_eqI) (auto simp add: bit_simps bit_can)

lemma report_id_source: "THINGSET_CAN_SOURCE_GET (report_id p d s) = take_bit 8 s"
  unfolding report_id_def can_set_defs can_get_defs can_pos_defs
  by (rule bit_eqI) (auto simp add: bit_simps bit_can)

lemma report_id_type:
  "report_id (take_bit 3 p) d s AND THINGSET_CAN_TYPE_MASK = THINGSET_CAN_TYPE_REPORT"
  unfolding report_id_def can_set_defs can_get_defs can_pos_defs
  by (rule bit_eqI) (auto simp add: bit_simps bit_can)

section \<open>Round trip\<close>

text \<open>
  C1. For field values within their widths (priority below 8, source, target and bus ID
  below 0x100, data ID below 0x10000) every getter applied to the output of its setter
  gives the value back. The same holds through a whole identifier: decoding a channel
  identifier composed of priority, bus ID, target and source, or a report identifier
  composed of priority, data ID and source, returns the fields that went in, and the
  type tag that went in.
\<close>

theorem get_set_roundtrip:
  assumes "prio < 8" and "source < 0x100" and "target < 0x100" and "bus_id < 0x100"
    and "data_id < 0x10000"
  shows "THINGSET_CAN_SOURCE_GET (THINGSET_CAN_SOURCE_SET source) = source
    \<and> THINGSET_CAN_TARGET_GET (THINGSET_CAN_TARGET_SET target) = target
    \<and> THINGSET_CAN_BUS_ID_GET (THINGSET_CAN_BUS_ID_SET bus_id) = bus_id
    \<and> THINGSET_CAN_DATA_ID_GET (THINGSET_CAN_DATA_ID_SET data_id) = data_id
    \<and> THINGSET_CAN_PRIO_GET (THINGSET_CAN_PRIO_SET prio) = prio
    \<and> THINGSET_CAN_PRIO_GET (channel_id prio bus_id target source) = prio
    \<and> THINGSET_CAN_BUS_ID_GET (channel_id prio bus_id target source) = bus_id
    \<and> THINGSET_CAN_TARGET_GET (channel_id prio bus_id target source) = target
    \<and> THINGSET_CAN_SOURCE_GET (channel_id prio bus_id target source) = source
    \<and> channel_id prio bus_id target source AND THINGSET_CAN_TYPE_MASK
          = THINGSET_CAN_TYPE_CHANNEL
    \<and> THINGSET_CAN_PRIO_GET (report_id prio data_id source) = prio
    \<and> THINGSET_CAN_DATA_ID_GET (report_id prio data_id source) = data_id
    \<and> THINGSET_CAN_SOURCE_GET (report_id prio data_id source) = source
    \<and> report_id prio data_id source AND THINGSET_CAN_TYPE_MASK = THINGSET_CAN_TYPE_REPORT"
proof -
  note f = fits3 [OF assms(1)] fits8 [OF assms(2)] fits8 [OF assms(3)] fits8 [OF assms(4)]
    fits16 [OF assms(5)]
  have single:
    "THINGSET_CAN_SOURCE_GET (THINGSET_CAN_SOURCE_SET source) = source"
    "THINGSET_CAN_TARGET_GET (THINGSET_CAN_TARGET_SET target) = target"
    "THINGSET_CAN_BUS_ID_GET (THINGSET_CAN_BUS_ID_SET bus_id) = bus_id"
    "THINGSET_CAN_DATA_ID_GET (THINGSET_CAN_DATA_ID_SET data_id) = data_id"
    "THINGSET_CAN_PRIO_GET (THINGSET_CAN_PRIO_SET prio) = prio"
    by (simp_all add: source_get_set target_get_set bus_id_get_set data_id_get_set
        prio_get_set f)
  have chan:
    "THINGSET_CAN_PRIO_GET (channel_id prio bus_id target source) = prio"
    "THINGSET_CAN_BUS_ID_GET (channel_id prio bus_id target source) = bus_id"
    "THINGSET_CAN_TARGET_GET (channel_id prio bus_id target source) = target"
    "THINGSET_CAN_SOURCE_GET (channel_id prio bus_id target source) = source"
    by (simp_all add: channel_id_prio channel_id_bus_id channel_id_target channel_id_source f)
  have chan_type:
    "channel_id prio bus_id target source AND THINGSET_CAN_TYPE_MASK
       = THINGSET_CAN_TYPE_CHANNEL"
    using channel_id_type [of prio bus_id target source] by (simp add: f)
  have rep:
    "THINGSET_CAN_PRIO_GET (report_id prio data_id source) = prio"
    "THINGSET_CAN_DATA_ID_GET (report_id prio data_id source) = data_id"
    "THINGSET_CAN_SOURCE_GET (report_id prio data_id source) = source"
    by (simp_all add: report_id_prio report_id_data_id report_id_source f)
  have rep_type:
    "report_id prio data_id source AND THINGSET_CAN_TYPE_MASK = THINGSET_CAN_TYPE_REPORT"
    using report_id_type [of prio data_id source] by (simp add: f)
  from single chan chan_type rep rep_type show ?thesis by simp
qed

theorem get_set_roundtrip_witness:
  "(6::u32) < 8 \<and> (0x01::u32) < 0x100 \<and> (0x05::u32) < 0x100 \<and> (0xDA::u32) < 0x100
    \<and> (0x1234::u32) < 0x10000
    \<and> THINGSET_CAN_SOURCE_GET (THINGSET_CAN_SOURCE_SET 0x01) = 0x01
    \<and> THINGSET_CAN_TARGET_GET (THINGSET_CAN_TARGET_SET 0x05) = 0x05
    \<and> THINGSET_CAN_BUS_ID_GET (THINGSET_CAN_BUS_ID_SET 0xDA) = 0xDA
    \<and> THINGSET_CAN_DATA_ID_GET (THINGSET_CAN_DATA_ID_SET 0x1234) = 0x1234
    \<and> THINGSET_CAN_PRIO_GET (THINGSET_CAN_PRIO_SET 6) = 6
    \<and> THINGSET_CAN_PRIO_GET (channel_id 6 0xDA 0x05 0x01) = 6
    \<and> THINGSET_CAN_BUS_ID_GET (channel_id 6 0xDA 0x05 0x01) = 0xDA
    \<and> THINGSET_CAN_TARGET_GET (channel_id 6 0xDA 0x05 0x01) = 0x05
    \<and> THINGSET_CAN_SOURCE_GET (channel_id 6 0xDA 0x05 0x01) = 0x01
    \<and> THINGSET_CAN_DATA_ID_GET (report_id 6 0x1234 0x01) = 0x1234"
  using get_set_roundtrip [of 6 "0x01" "0x05" "0xDA" "0x1234"] by simp

section \<open>Concrete identifiers\<close>

text \<open>
  C4. A channel identifier built by OR-ing the priority 6, the channel type tag, the bus
  ID 0xDA, the target address 0x05 and the source address 0x01 is exactly 0x18DA0501.
\<close>

theorem channel_id_scenario:
  "THINGSET_CAN_PRIO_SET 6 OR THINGSET_CAN_TYPE_CHANNEL OR THINGSET_CAN_BUS_ID_SET 0xDA
     OR THINGSET_CAN_TARGET_SET 0x05 OR THINGSET_CAN_SOURCE_SET 0x01 = 0x18DA0501"
  by (simp add: can_set_defs can_mask_defs can_type_defs can_pos_defs)

section \<open>Classification\<close>

lemma type_tag_alt:
  "ident AND THINGSET_CAN_TYPE_MASK = push_bit 24 (take_bit 2 (drop_bit 24 ident))"
  by (rule bit_eqI) (auto simp add: bit_simps bit_can)

lemma two_bit_cases:
  fixes t :: u32
  shows "take_bit 2 t = 0 \<or> take_bit 2 t = 1 \<or> take_bit 2 t = 2 \<or> take_bit 2 t = 3"
proof -
  have "unat (take_bit 2 t) = take_bit 2 (unat t)"
    by (simp only: unsigned_take_bit_eq)
  also have "\<dots> < 2 ^ 2"
    by (rule take_bit_nat_less_exp)
  finally have "unat (take_bit 2 t) < 4"
    by simp
  then have "unat (take_bit 2 t) = 0 \<or> unat (take_bit 2 t) = 1
      \<or> unat (take_bit 2 t) = 2 \<or> unat (take_bit 2 t) = 3"
    by arith
  then show ?thesis
    by (simp add: word_unat_eq_iff)
qed

lemma type_tag_cases:
  "ident AND THINGSET_CAN_TYPE_MASK = THINGSET_CAN_TYPE_CHANNEL
    \<or> ident AND THINGSET_CAN_TYPE_MASK = push_bit THINGSET_CAN_TYPE_POS 0x1
    \<or> ident AND THINGSET_CAN_TYPE_MASK = THINGSET_CAN_TYPE_REPORT
    \<or> ident AND THINGSET_CAN_TYPE_MASK = THINGSET_CAN_TYPE_NETWORK"
  using two_bit_cases [of "drop_bit 24 ident"]
  unfolding type_tag_alt can_type_defs can_pos_defs
  by auto

lemma type_tags_distinct:
  "THINGSET_CAN_TYPE_CHANNEL \<noteq> push_bit THINGSET_CAN_TYPE_POS 0x1"
  "THINGSET_CAN_TYPE_CHANNEL \<noteq> THINGSET_CAN_TYPE_REPORT"
  "THINGSET_CAN_TYPE_CHANNEL \<noteq> THINGSET_CAN_TYPE_NETWORK"
  "push_bit THINGSET_CAN_TYPE_POS 0x1 \<noteq> THINGSET_CAN_TYPE_REPORT"
  "push_bit THINGSET_CAN_TYPE_POS 0x1 \<noteq> THINGSET_CAN_TYPE_NETWORK"
  "THINGSET_CAN_TYPE_REPORT \<noteq> THINGSET_CAN_TYPE_NETWORK"
  by (simp_all add: can_type_defs can_pos_defs)

lemma type_control_is_report: "THINGSET_CAN_TYPE_CONTROL = THINGSET_CAN_TYPE_REPORT"
  by (simp add: THINGSET_CAN_TYPE_CONTROL_def THINGSET_CAN_TYPE_REPORT_def)

lemma prio_get_alt: "THINGSET_CAN_PRIO_GET ident = take_bit 3 (drop_bit 26 ident)"
  unfolding can_get_defs can_pos_defs
  by (rule bit_eqI) (auto simp add: bit_simps bit_can)

lemma prio_get_le7: "THINGSET_CAN_PRIO_GET ident \<le> 7"
proof -
  have "unat (take_bit 3 (drop_bit 26 ident)) = take_bit 3 (unat (drop_bit 26 ident))"
    by (simp only: unsigned_take_bit_eq)
  also have "\<dots> < 2 ^ 3"
    by (rule take_bit_nat_less_exp)
  finally have "unat (take_bit 3 (drop_bit 26 ident)) < 8"
    by simp
  then show ?thesis
    unfolding prio_get_alt by (simp add: word_le_nat_alt)
qed

text \<open>
  C2. Every identifier falls into exactly one of the four classes channel, report
  (control included), network management (type tag 0x3) and unknown (the remaining type
  tag 0x1). The macros \<open>THINGSET_CAN_CHANNEL\<close>, \<open>THINGSET_CAN_REPORT\<close> and
  \<open>THINGSET_CAN_CONTROL\<close> and the network tag exclude each other pairwise, and an
  identifier matches none of them exactly when its type tag is 0x1.
\<close>

theorem classification_partition:
  "length (filter (\<lambda>b. b)
     [THINGSET_CAN_CHANNEL ident,
      THINGSET_CAN_REPORT ident \<or> THINGSET_CAN_CONTROL ident,
      ident AND THINGSET_CAN_TYPE_MASK = THINGSET_CAN_TYPE_NETWORK,
      ident AND THINGSET_CAN_TYPE_MASK = push_bit THINGSET_CAN_TYPE_POS 0x1]) = 1
   \<and> \<not> (THINGSET_CAN_CHANNEL ident \<and> THINGSET_CAN_REPORT ident)
   \<and> \<not> (THINGSET_CAN_CHANNEL ident \<and> THINGSET_CAN_CONTROL ident)
   \<and> \<not> (THINGSET_CAN_REPORT ident \<and> THINGSET_CAN_CONTROL ident)
   \<and> \<not> (ident AND THINGSET_CAN_TYPE_MASK = THINGSET_CAN_TYPE_NETWORK
          \<and> THINGSET_CAN_CHANNEL ident)
   \<and> \<not> (ident AND THINGSET_CAN_TYPE_MASK = THINGSET_CAN_TYPE_NETWORK
          \<and> THINGSET_CAN_REPORT ident)
   \<and> \<not> (ident AND THINGSET_CAN_TYPE_MASK = THINGSET_CAN_TYPE_NETWORK
          \<and> THINGSET_CAN_CONTROL ident)
   \<and> (ident AND THINGSET_CAN_TYPE_MASK = push_bit THINGSET_CAN_TYPE_POS 0x1
        \<longleftrightarrow> \<not> THINGSET_CAN_CHANNEL ident \<and> \<not> THINGSET_CAN_REPORT ident
            \<and> \<not> THINGSET_CAN_CONTROL ident
            \<and> ident AND THINGSET_CAN_TYPE_MASK \<noteq> THINGSET_CAN_TYPE_NETWORK)"
proof -
  have prio: "THINGSET_CAN_PRIO_GET ident < 4 \<or> 4 \<le> THINGSET_CAN_PRIO_GET ident"
    by (rule le_less_linear [THEN disjE]) auto
  have lt: "THINGSET_CAN_PRIO_GET ident < 4 \<longleftrightarrow> \<not> 4 \<le> THINGSET_CAN_PRIO_GET ident"
    by (simp add: not_le)
  from type_tag_cases [of ident] show ?thesis
  proof (elim disjE)
    assume "ident AND THINGSET_CAN_TYPE_MASK = THINGSET_CAN_TYPE_CHANNEL"
    then show ?thesis
      using type_tags_distinct
      by (simp add: can_class_defs type_control_is_report)
  next
    assume "ident AND THINGSET_CAN_TYPE_MASK = push_bit THINGSET_CAN_TYPE_POS 0x1"
    then show ?thesis
      using type_tags_distinct type_tags_distinct [symmetric]
      by (simp add: can_class_defs type_control_is_report)
  next
    assume "ident AND THINGSET_CAN_TYPE_MASK = THINGSET_CAN_TYPE_REPORT"
    then show ?thesis
      using type_tags_distinct type_tags_distinct [symmetric] prio
      by (auto simp add: can_class_defs type_control_is_report lt)
  next
    assume "ident AND THINGSET_CAN_TYPE_MASK = THINGSET_CAN_TYPE_NETWORK"
    then show ?thesis
      using type_tags_distinct type_tags_distinct [symmetric]
      by (simp add: can_class_defs type_control_is_report)
  qed
qed

text \<open>
  C3. Among the identifiers carrying the report type tag 0x2 the priority alone decides:
  with a priority of 0 to 3 the identifier is a control frame and not a report, with a
  priority of 4 to 7 it is a report and not a control frame. The priority field never
  exceeds 7, so the two ranges cover every such identifier.
\<close>

theorem report_control_by_priority:
  assumes "ident AND THINGSET_CAN_TYPE_MASK = THINGSET_CAN_TYPE_REPORT"
  shows "(THINGSET_CAN_PRIO_GET ident < 4
            \<longrightarrow> THINGSET_CAN_CONTROL ident \<and> \<not> THINGSET_CAN_REPORT ident)
       \<and> (4 \<le> THINGSET_CAN_PRIO_GET ident
            \<longrightarrow> THINGSET_CAN_REPORT ident \<and> \<not> THINGSET_CAN_CONTROL ident)
       \<and> THINGSET_CAN_PRIO_GET ident \<le> 7"
  using assms prio_get_le7 [of ident]
  by (auto simp add: can_class_defs type_control_is_report)

theorem report_control_by_priority_witness:
  "0x0A001234 AND THINGSET_CAN_TYPE_MASK = THINGSET_CAN_TYPE_REPORT
   \<and> THINGSET_CAN_PRIO_GET 0x0A001234 < 4
   \<and> THINGSET_CAN_CONTROL 0x0A001234 \<and> \<not> THINGSET_CAN_REPORT 0x0A001234
   \<and> 0x16001234 AND THINGSET_CAN_TYPE_MASK = THINGSET_CAN_TYPE_REPORT
   \<and> 4 \<le> THINGSET_CAN_PRIO_GET 0x16001234
   \<and> THINGSET_CAN_REPORT 0x16001234 \<and> \<not> THINGSET_CAN_CONTROL 0x16001234"
proof -
  have c: "0x0A001234 AND THINGSET_CAN_TYPE_MASK = THINGSET_CAN_TYPE_REPORT"
    by (simp add: can_mask_defs can_type_defs can_pos_defs)
  have r: "0x16001234 AND THINGSET_CAN_TYPE_MASK = THINGSET_CAN_TYPE_REPORT"
    by (simp add: can_mask_defs can_type_defs can_pos_defs)
  have pc: "THINGSET_CAN_PRIO_GET 0x0A001234 < 4"
    by (simp add: can_get_defs can_mask_defs can_pos_defs)
  have pr: "4 \<le> THINGSET_CAN_PRIO_GET 0x16001234"
    by (simp add: can_get_defs can_mask_defs can_pos_defs)
  show ?thesis
    using c r pc pr report_control_by_priority [OF c] report_control_by_priority [OF r]
    by simp
qed

section \<open>Over-width values\<close>

lemma source_set_take_bit: "THINGSET_CAN_SOURCE_SET (take_bit 8 v) = THINGSET_CAN_SOURCE_SET v"
  unfolding can_set_defs can_pos_defs
  by (rule bit_eqI) (auto simp add: bit_simps bit_can)

lemma target_set_take_bit: "THINGSET_CAN_TARGET_SET (take_bit 8 v) = THINGSET_CAN_TARGET_SET v"
  unfolding can_set_defs can_pos_defs
  by (rule bit_eqI) (auto simp add: bit_simps bit_can)

lemma bus_id_set_take_bit: "THINGSET_CAN_BUS_ID_SET (take_bit 8 v) = THINGSET_CAN_BUS_ID_SET v"
  unfolding can_set_defs can_pos_defs
  by (rule bit_eqI) (auto simp add: bit_simps bit_can)

lemma data_id_set_take_bit:
  "THINGSET_CAN_DATA_ID_SET (take_bit 16 v) = THINGSET_CAN_DATA_ID_SET v"
  unfolding can_set_defs can_pos_defs
  by (rule bit_eqI) (auto simp add: bit_simps bit_can)

lemma source_set_within: "THINGSET_CAN_SOURCE_SET v AND NOT THINGSET_CAN_SOURCE_MASK = 0"
  unfolding can_set_defs can_pos_defs
  by (rule bit_eqI) (auto simp add: bit_simps bit_can)

lemma target_set_within: "THINGSET_CAN_TARGET_SET v AND NOT THINGSET_CAN_TARGET_MASK = 0"
  unfolding can_set_defs can_pos_defs
  by (rule bit_eqI) (auto simp add: bit_simps bit_can)

lemma bus_id_set_within: "THINGSET_CAN_BUS_ID_SET v AND NOT THINGSET_CAN_BUS_ID_MASK = 0"
  unfolding can_set_defs can_pos_defs
  by (rule bit_eqI) (auto simp add: bit_simps bit_can)

lemma data_id_set_within: "THINGSET_CAN_DATA_ID_SET v AND NOT THINGSET_CAN_DATA_ID_MASK = 0"
  unfolding can_set_defs can_pos_defs
  by (rule bit_eqI) (auto simp add: bit_simps bit_can)

text \<open>
  C5, as stated: encoding a field tuple with an over-width field fails with
  \<open>InvalidField\<close>. The macros have no failing path. With the source 0x101 the channel
  identifier is 0x18DA0501, the identifier of the source 0x01; with the data ID 0x12345
  the report identifier is that of the data ID 0x2345; with the priority 9 an identifier
  comes back as well.
\<close>

theorem encode_invalid_field_counterexample:
  "\<not> (0x101::u32) < 0x100
   \<and> encode_channel 6 0xDA 0x05 0x101 = Inr 0x18DA0501
   \<and> encode_channel 6 0xDA 0x05 0x101 \<noteq> Inl InvalidField
   \<and> \<not> (0x12345::u32) < 0x10000
   \<and> encode_report 7 0x12345 0x01 = Inr 0x1E234501
   \<and> encode_report 7 0x12345 0x01 \<noteq> Inl InvalidField
   \<and> \<not> (9::u32) < 8
   \<and> encode_channel 9 0xDA 0x05 0x01 = Inr 0x24DA0501
   \<and> encode_channel 9 0xDA 0x05 0x01 \<noteq> Inl InvalidField"
  by (simp add: encode_channel_def encode_report_def channel_id_def report_id_def
      can_set_defs can_mask_defs can_type_defs can_pos_defs)

text \<open>
  C5, amended: encoding never fails. For every field tuple, also one with an over-width
  field, an identifier is produced; an over-width source, target or bus ID is cut down to
  its low 8 bits and an over-width data ID to its low 16 bits, so the identifier is the
  one of the values taken modulo \<open>2 ^ 8\<close> and \<open>2 ^ 16\<close>.
\<close>

theorem encode_truncates:
  "encode_channel prio bus_id target source
     = Inr (channel_id prio (bus_id mod 2 ^ 8) (target mod 2 ^ 8) (source mod 2 ^ 8))
   \<and> encode_report prio data_id source
     = Inr (report_id prio (data_id mod 2 ^ 16) (source mod 2 ^ 8))
   \<and> encode_channel prio bus_id target source \<noteq> Inl InvalidField
   \<and> encode_report prio data_id source \<noteq> Inl InvalidField"
proof -
  have "channel_id prio (take_bit 8 bus_id) (take_bit 8 target) (take_bit 8 source)
      = channel_id prio bus_id target source"
    unfolding channel_id_def
    by (simp only: source_set_take_bit target_set_take_bit bus_id_set_take_bit)
  moreover have "report_id prio (take_bit 16 data_id) (take_bit 8 source)
      = report_id prio data_id source"
    unfolding report_id_def
    by (simp only: source_set_take_bit data_id_set_take_bit)
  ultimately show ?thesis
    by (simp add: encode_channel_def encode_report_def take_bit_eq_mod)
qed

text \<open>
  C8. For every 32-bit value, also one wider than the field, the setters for source,
  target, bus ID and data ID truncate by masking: reading the field back gives the value
  modulo \<open>2 ^ 8\<close> (modulo \<open>2 ^ 16\<close> for the data ID), and the setter's result has no bit
  outside the mask of its field. The setters are total: they return a word for every
  input and have no error result.
\<close>

theorem setters_truncate:
  "THINGSET_CAN_SOURCE_GET (THINGSET_CAN_SOURCE_SET v) = v mod 2 ^ 8
   \<and> THINGSET_CAN_TARGET_GET (THINGSET_CAN_TARGET_SET v) = v mod 2 ^ 8
   \<and> THINGSET_CAN_BUS_ID_GET (THINGSET_CAN_BUS_ID_SET v) = v mod 2 ^ 8
   \<and> THINGSET_CAN_DATA_ID_GET (THINGSET_CAN_DATA_ID_SET v) = v mod 2 ^ 16
   \<and> THINGSET_CAN_SOURCE_SET v AND NOT THINGSET_CAN_SOURCE_MASK = 0
   \<and> THINGSET_CAN_TARGET_SET v AND NOT THINGSET_CAN_TARGET_MASK = 0
   \<and> THINGSET_CAN_BUS_ID_SET v AND NOT THINGSET_CAN_BUS_ID_MASK = 0
   \<and> THINGSET_CAN_DATA_ID_SET v AND NOT THINGSET_CAN_DATA_ID_MASK = 0"
  by (simp add: source_get_set target_get_set bus_id_get_set data_id_get_set
      source_set_within target_set_within bus_id_set_within data_id_set_within
      take_bit_eq_mod)

text \<open>
  C9. The priority setter applies no mask. For a priority from 8 up to 63 its result has
  a bit above bit 28 set, so it differs from its own low 29 bits; for a priority below 8
  the result lies within the priority field, bits 28 to 26.
\<close>

theorem prio_set_unmasked:
  "(8 \<le> p \<and> p < 2 ^ 6
      \<longrightarrow> THINGSET_CAN_PRIO_SET p \<noteq> THINGSET_CAN_PRIO_SET p AND 0x1FFFFFFF)
   \<and> (p < 8 \<longrightarrow> THINGSET_CAN_PRIO_SET p AND THINGSET_CAN_PRIO_MASK = THINGSET_CAN_PRIO_SET p)"
proof (intro conjI impI)
  assume range: "8 \<le> p \<and> p < 2 ^ 6"
  then have lo: "8 \<le> unat p" and hi: "unat p < 64"
    by (simp_all add: word_le_nat_alt word_less_nat_alt)
  have "unat (THINGSET_CAN_PRIO_SET p) = (unat p * 2 ^ 26) mod 2 ^ 32"
    by (simp add: THINGSET_CAN_PRIO_SET_def THINGSET_CAN_PRIO_POS_def push_bit_eq_mult
        unat_word_ariths)
  also have "\<dots> = unat p * 2 ^ 26"
    using hi by simp
  finally have big: "2 ^ 29 \<le> unat (THINGSET_CAN_PRIO_SET p)"
    using lo by simp
  have "unat (THINGSET_CAN_PRIO_SET p AND mask 29) = take_bit 29 (unat (THINGSET_CAN_PRIO_SET p))"
    by (simp only: unsigned_take_bit_eq flip: take_bit_eq_mask)
  also have "\<dots> < 2 ^ 29"
    by (rule take_bit_nat_less_exp)
  finally have "unat (THINGSET_CAN_PRIO_SET p AND mask 29) \<noteq> unat (THINGSET_CAN_PRIO_SET p)"
    using big by simp
  then show "THINGSET_CAN_PRIO_SET p \<noteq> THINGSET_CAN_PRIO_SET p AND 0x1FFFFFFF"
    unfolding lit_mask29 by auto
next
  assume "p < 8"
  then have f: "take_bit 3 p = p"
    by (rule fits3)
  have "THINGSET_CAN_PRIO_SET (take_bit 3 p) AND THINGSET_CAN_PRIO_MASK
      = THINGSET_CAN_PRIO_SET (take_bit 3 p)"
    unfolding can_set_defs can_pos_defs
    by (rule bit_eqI) (auto simp add: bit_simps bit_can)
  then show "THINGSET_CAN_PRIO_SET p AND THINGSET_CAN_PRIO_MASK = THINGSET_CAN_PRIO_SET p"
    by (simp add: f)
qed

theorem prio_set_unmasked_witness:
  "(8::u32) \<le> 9 \<and> (9::u32) < 2 ^ 6
   \<and> THINGSET_CAN_PRIO_SET 9 \<noteq> THINGSET_CAN_PRIO_SET 9 AND 0x1FFFFFFF
   \<and> (6::u32) < 8
   \<and> THINGSET_CAN_PRIO_SET 6 AND THINGSET_CAN_PRIO_MASK = THINGSET_CAN_PRIO_SET 6"
  using prio_set_unmasked [of 9] prio_set_unmasked [of 6] by simp

text \<open>
  The upper bound on the priority matters: the shift is a 32-bit one, so from 64 on the
  high bits of the priority are lost altogether.
\<close>

lemma prio_set_wraps: "THINGSET_CAN_PRIO_SET 64 = 0"
  by (simp add: THINGSET_CAN_PRIO_SET_def THINGSET_CAN_PRIO_POS_def)

section \<open>Node addresses\<close>

lemma addr_max_iff:
  "a \<le> THINGSET_CAN_ADDR_MAX
     \<longleftrightarrow> a \<noteq> THINGSET_CAN_ADDR_ANONYMOUS \<and> a \<noteq> THINGSET_CAN_ADDR_BROADCAST"
proof -
  have "unat a < 256"
    using unsigned_less [of a, where 'a = nat] by simp
  then show ?thesis
    unfolding THINGSET_CAN_ADDR_MAX_def THINGSET_CAN_ADDR_ANONYMOUS_def
      THINGSET_CAN_ADDR_BROADCAST_def
    by (auto simp add: word_le_nat_alt word_unat_eq_iff)
qed

text \<open>
  C6. The assignable addresses are exactly 0x00 to 0xFD: 0xFE is the anonymous sentinel,
  0xFF the broadcast sentinel, and an 8-bit address is at most \<open>THINGSET_CAN_ADDR_MAX\<close>
  exactly when it is neither of them. Committing 0xFE or 0xFF is rejected, committing
  any other address succeeds, and after a successful commit the claimed address is the
  committed one and is at most \<open>THINGSET_CAN_ADDR_MAX\<close>.
\<close>

theorem commit_address_bounds:
  "THINGSET_CAN_ADDR_MAX = 0xFD
   \<and> THINGSET_CAN_ADDR_ANONYMOUS = 0xFE
   \<and> THINGSET_CAN_ADDR_BROADCAST = 0xFF
   \<and> (a \<le> THINGSET_CAN_ADDR_MAX
        \<longleftrightarrow> a \<noteq> THINGSET_CAN_ADDR_ANONYMOUS \<and> a \<noteq> THINGSET_CAN_ADDR_BROADCAST)
   \<and> commit THINGSET_CAN_ADDR_ANONYMOUS ts = None
   \<and> commit THINGSET_CAN_ADDR_BROADCAST ts = None
   \<and> (commit a ts \<noteq> None \<longleftrightarrow> a \<le> THINGSET_CAN_ADDR_MAX)
   \<and> (commit a ts = Some ts'
        \<longrightarrow> node_addr ts' = a \<and> node_addr ts' \<le> THINGSET_CAN_ADDR_MAX)"
proof -
  have known: "THINGSET_CAN_ADDR_MAX = 0xFD" "THINGSET_CAN_ADDR_ANONYMOUS = 0xFE"
    "THINGSET_CAN_ADDR_BROADCAST = 0xFF"
    by (simp_all add: THINGSET_CAN_ADDR_MAX_def THINGSET_CAN_ADDR_ANONYMOUS_def
        THINGSET_CAN_ADDR_BROADCAST_def)
  have rej: "commit THINGSET_CAN_ADDR_ANONYMOUS ts = None"
    "commit THINGSET_CAN_ADDR_BROADCAST ts = None"
    by (simp_all add: commit_def)
  have acc: "commit a ts \<noteq> None \<longleftrightarrow> a \<le> THINGSET_CAN_ADDR_MAX"
    by (simp add: commit_def addr_max_iff)
  have post: "commit a ts = Some ts'
      \<longrightarrow> node_addr ts' = a \<and> node_addr ts' \<le> THINGSET_CAN_ADDR_MAX"
    by (auto simp add: commit_def addr_max_iff split: if_splits)
  from known rej acc post addr_max_iff [of a] show ?thesis
    by blast
qed

theorem commit_address_bounds_witness:
  "commit 0x2A \<lparr>next_pub_time = 0, node_addr = 0xFE, pub_enable = False\<rparr>
     = Some \<lparr>next_pub_time = 0, node_addr = 0x2A, pub_enable = False\<rparr>
   \<and> node_addr \<lparr>next_pub_time = 0, node_addr = 0x2A, pub_enable = False\<rparr> = 0x2A
   \<and> node_addr \<lparr>next_pub_time = 0, node_addr = 0x2A, pub_enable = False\<rparr>
        \<le> THINGSET_CAN_ADDR_MAX"
proof -
  have c: "commit 0x2A \<lparr>next_pub_time = 0, node_addr = 0xFE, pub_enable = False\<rparr>
      = Some \<lparr>next_pub_time = 0, node_addr = 0x2A, pub_enable = False\<rparr>"
    by (simp add: commit_def THINGSET_CAN_ADDR_ANONYMOUS_def THINGSET_CAN_ADDR_BROADCAST_def)
  have "commit 0x2A \<lparr>next_pub_time = 0, node_addr = 0xFE, pub_enable = False\<rparr>
      = Some \<lparr>next_pub_time = 0, node_addr = 0x2A, pub_enable = False\<rparr>
    \<longrightarrow> node_addr \<lparr>next_pub_time = 0, node_addr = 0x2A, pub_enable = False\<rparr> = 0x2A
      \<and> node_addr \<lparr>next_pub_time = 0, node_addr = 0x2A, pub_enable = False\<rparr>
           \<le> THINGSET_CAN_ADDR_MAX"
    using commit_address_bounds [of "0x2A"
        "\<lparr>next_pub_time = 0, node_addr = 0xFE, pub_enable = False\<rparr>"
        "\<lparr>next_pub_time = 0, node_addr = 0x2A, pub_enable = False\<rparr>"]
    by blast
  with c show ?thesis
    by blast
qed

section \<open>Priorities and arbitration\<close>

lemma prio_get_mono:
  fixes a b :: u32
  assumes "a < 2 ^ 29" and "THINGSET_CAN_PRIO_GET a < THINGSET_CAN_PRIO_GET b"
  shows "a < b"
proof -
  have fit: "take_bit 29 a = a"
    using assms(1) by (rule u32_less_take_bit)
  have "THINGSET_CAN_PRIO_GET a = drop_bit 26 (take_bit 29 a)"
    unfolding prio_get_alt by (simp add: drop_bit_take_bit)
  then have ga: "THINGSET_CAN_PRIO_GET a = drop_bit 26 a"
    using fit by simp
  have "unat (take_bit 3 (drop_bit 26 b)) \<le> unat (drop_bit 26 b)"
    by (simp add: unsigned_take_bit_eq)
  then have "unat (drop_bit 26 a) < unat (drop_bit 26 b)"
    using assms(2) unfolding ga prio_get_alt [of b] by (simp add: word_less_nat_alt)
  then have "unat a div 2 ^ 26 < unat b div 2 ^ 26"
    by (simp add: drop_bit_eq_div unat_div_distrib)
  then have "unat a < unat b"
    by (metis div_le_mono not_le)
  then show ?thesis
    by (simp add: word_less_nat_alt)
qed

text \<open>
  C7. On the bus the numerically smaller identifier wins. The network-management
  priority, 4, is smaller than the channel priority, 6, and the report-low priority, 7,
  and larger than the control-emergency priority, 0, and the control-high priority, 2;
  this holds of the shifted constants and of the priority values read back from them.
  Since the priority is the topmost field of a 29-bit identifier, an identifier with the
  smaller priority field is the smaller identifier whatever the other fields hold.
\<close>

theorem priority_order:
  "THINGSET_CAN_PRIO_NETWORK_MGMT < THINGSET_CAN_PRIO_CHANNEL
   \<and> THINGSET_CAN_PRIO_NETWORK_MGMT < THINGSET_CAN_PRIO_REPORT_LOW
   \<and> THINGSET_CAN_PRIO_CONTROL_EMERGENCY < THINGSET_CAN_PRIO_NETWORK_MGMT
   \<and> THINGSET_CAN_PRIO_CONTROL_HIGH < THINGSET_CAN_PRIO_NETWORK_MGMT
   \<and> THINGSET_CAN_PRIO_GET THINGSET_CAN_PRIO_NETWORK_MGMT = 4
   \<and> THINGSET_CAN_PRIO_GET THINGSET_CAN_PRIO_CHANNEL = 6
   \<and> THINGSET_CAN_PRIO_GET THINGSET_CAN_PRIO_REPORT_LOW = 7
   \<and> THINGSET_CAN_PRIO_GET THINGSET_CAN_PRIO_CONTROL_EMERGENCY = 0
   \<and> THINGSET_CAN_PRIO_GET THINGSET_CAN_PRIO_CONTROL_HIGH = 2
   \<and> (a < 2 ^ 29 \<and> THINGSET_CAN_PRIO_GET a < THINGSET_CAN_PRIO_GET b \<longrightarrow> a < b)"
proof -
  have known:
    "THINGSET_CAN_PRIO_NETWORK_MGMT < THINGSET_CAN_PRIO_CHANNEL"
    "THINGSET_CAN_PRIO_NETWORK_MGMT < THINGSET_CAN_PRIO_REPORT_LOW"
    "THINGSET_CAN_PRIO_CONTROL_EMERGENCY < THINGSET_CAN_PRIO_NETWORK_MGMT"
    "THINGSET_CAN_PRIO_CONTROL_HIGH < THINGSET_CAN_PRIO_NETWORK_MGMT"
    by (simp_all add: can_prio_defs can_pos_defs)
  have vals:
    "THINGSET_CAN_PRIO_GET THINGSET_CAN_PRIO_NETWORK_MGMT = 4"
    "THINGSET_CAN_PRIO_GET THINGSET_CAN_PRIO_CHANNEL = 6"
    "THINGSET_CAN_PRIO_GET THINGSET_CAN_PRIO_REPORT_LOW = 7"
    "THINGSET_CAN_PRIO_GET THINGSET_CAN_PRIO_CONTROL_EMERGENCY = 0"
    "THINGSET_CAN_PRIO_GET THINGSET_CAN_PRIO_CONTROL_HIGH = 2"
    by (simp_all add: can_prio_defs can_get_defs can_mask_defs can_pos_defs)
  from known vals prio_get_mono [of a b] show ?thesis
    by blast
qed

theorem priority_order_witness:
  "(0x13AB0501::u32) < 2 ^ 29
   \<and> THINGSET_CAN_PRIO_GET 0x13AB0501 < THINGSET_CAN_PRIO_GET 0x18DA0501
   \<and> (0x13AB0501::u32) < 0x18DA0501"
proof -
  have p: "THINGSET_CAN_PRIO_GET 0x13AB0501 < THINGSET_CAN_PRIO_GET 0x18DA0501"
    by (simp add: can_get_defs can_mask_defs can_pos_defs)
  have w: "(0x13AB0501::u32) < 2 ^ 29"
    by simp
  show ?thesis
    using p w priority_order [of "0x13AB0501" "0x18DA0501"] by simp
qed

section \<open>Field masks\<close>

text \<open>
  C10. The five field masks (priority, type, bus ID, target, source) are pairwise
  disjoint, and their OR is 0x1FFFFFFF: each of the 29 bits of an identifier lies in
  exactly one of them. The data ID mask is the bus ID mask and the target mask together.
\<close>

theorem field_masks_partition:
  "THINGSET_CAN_PRIO_MASK AND THINGSET_CAN_TYPE_MASK = 0
   \<and> THINGSET_CAN_PRIO_MASK AND THINGSET_CAN_BUS_ID_MASK = 0
   \<and> THINGSET_CAN_PRIO_MASK AND THINGSET_CAN_TARGET_MASK = 0
   \<and> THINGSET_CAN_PRIO_MASK AND THINGSET_CAN_SOURCE_MASK = 0
   \<and> THINGSET_CAN_TYPE_MASK AND THINGSET_CAN_BUS_ID_MASK = 0
   \<and> THINGSET_CAN_TYPE_MASK AND THINGSET_CAN_TARGET_MASK = 0
   \<and> THINGSET_CAN_TYPE_MASK AND THINGSET_CAN_SOURCE_MASK = 0
   \<and> THINGSET_CAN_BUS_ID_MASK AND THINGSET_CAN_TARGET_MASK = 0
   \<and> THINGSET_CAN_BUS_ID_MASK AND THINGSET_CAN_SOURCE_MASK = 0
   \<and> THINGSET_CAN_TARGET_MASK AND THINGSET_CAN_SOURCE_MASK = 0
   \<and> THINGSET_CAN_PRIO_MASK OR THINGSET_CAN_TYPE_MASK OR THINGSET_CAN_BUS_ID_MASK
        OR THINGSET_CAN_TARGET_MASK OR THINGSET_CAN_SOURCE_MASK = 0x1FFFFFFF
   \<and> THINGSET_CAN_DATA_ID_MASK = THINGSET_CAN_BUS_ID_MASK OR THINGSET_CAN_TARGET_MASK
   \<and> (n < 29 \<longrightarrow> length (filter (\<lambda>m. bit m n)
        [THINGSET_CAN_PRIO_MASK, THINGSET_CAN_TYPE_MASK, THINGSET_CAN_BUS_ID_MASK,
         THINGSET_CAN_TARGET_MASK, THINGSET_CAN_SOURCE_MASK]) = 1)"
proof -
  have closed:
    "THINGSET_CAN_PRIO_MASK AND THINGSET_CAN_TYPE_MASK = 0"
    "THINGSET_CAN_PRIO_MASK AND THINGSET_CAN_BUS_ID_MASK = 0"
    "THINGSET_CAN_PRIO_MASK AND THINGSET_CAN_TARGET_MASK = 0"
    "THINGSET_CAN_PRIO_MASK AND THINGSET_CAN_SOURCE_MASK = 0"
    "THINGSET_CAN_TYPE_MASK AND THINGSET_CAN_BUS_ID_MASK = 0"
    "THINGSET_CAN_TYPE_MASK AND THINGSET_CAN_TARGET_MASK = 0"
    "THINGSET_CAN_TYPE_MASK AND THINGSET_CAN_SOURCE_MASK = 0"
    "THINGSET_CAN_BUS_ID_MASK AND THINGSET_CAN_TARGET_MASK = 0"
    "THINGSET_CAN_BUS_ID_MASK AND THINGSET_CAN_SOURCE_MASK = 0"
    "THINGSET_CAN_TARGET_MASK AND THINGSET_CAN_SOURCE_MASK = 0"
    "THINGSET_CAN_PRIO_MASK OR THINGSET_CAN_TYPE_MASK OR THINGSET_CAN_BUS_ID_MASK
        OR THINGSET_CAN_TARGET_MASK OR THINGSET_CAN_SOURCE_MASK = 0x1FFFFFFF"
    "THINGSET_CAN_DATA_ID_MASK = THINGSET_CAN_BUS_ID_MASK OR THINGSET_CAN_TARGET_MASK"
    by (simp_all add: can_mask_defs can_pos_defs)
  have bits: "n < 29 \<longrightarrow> length (filter (\<lambda>m. bit m n)
        [THINGSET_CAN_PRIO_MASK, THINGSET_CAN_TYPE_MASK, THINGSET_CAN_BUS_ID_MASK,
         THINGSET_CAN_TARGET_MASK, THINGSET_CAN_SOURCE_MASK]) = 1"
    by (simp add: bit_can)
  from closed bits show ?thesis
    by blast
qed

theorem field_masks_partition_witness:
  "(10::nat) < 29 \<and> length (filter (\<lambda>m. bit m (10::nat))
        [THINGSET_CAN_PRIO_MASK, THINGSET_CAN_TYPE_MASK, THINGSET_CAN_BUS_ID_MASK,
         THINGSET_CAN_TARGET_MASK, THINGSET_CAN_SOURCE_MASK]) = 1"
  using field_masks_partition [of 10] by simp

end
